theory Spec2Isabelle
  imports Main "HOL-Library.Word" "HOL-Library.Sublist" "HOL-Library.AList"
begin

section \<open>Qt value types\<close>

text \<open>
  The client (\<^verbatim>\<open>src/firebase.cpp\<close>) is written against Qt 5. A \<^verbatim>\<open>QString\<close> is a
  sequence of UTF-16 code units (\<^verbatim>\<open>QChar\<close>), a \<^verbatim>\<open>QByteArray\<close> a sequence of bytes.
  Lengths and indices are \<^verbatim>\<open>int\<close> in Qt; list lengths stand for them here, and an
  index computed by subtraction is an \<open>int\<close> so that \<open>-1\<close> is \<open>-1\<close>.
\<close>

type_synonym QChar = "16 word"
type_synonym QString = "QChar list"
type_synonym QByteArray = string

text \<open>\<^verbatim>\<open>QChar(char)\<close>: the Latin-1 character with that code.\<close>

definition QChar_fromLatin1 :: "char \<Rightarrow> QChar" where
  "QChar_fromLatin1 c = of_char c"

text \<open>
  The conversion of a C string literal of the source (all of them are ASCII) to a
  \<^verbatim>\<open>QString\<close>.
\<close>

definition QS :: "string \<Rightarrow> QString" where
  "QS s = map QChar_fromLatin1 s"

text \<open>
  \<^verbatim>\<open>QChar::isSpace\<close>: the controls 0x09..0x0D, U+0085, and the Unicode separators
  (categories Zs, Zl, Zp) of the Basic Multilingual Plane, as Unicode has had them since
  version 6.3.
\<close>

definition QChar_isSpace :: "QChar \<Rightarrow> bool" where
  "QChar_isSpace c =
     (let u = unat c in
        u = 0x20 \<or> (0x09 \<le> u \<and> u \<le> 0x0D) \<or> u = 0x85 \<or> u = 0xA0 \<or> u = 0x1680
        \<or> (0x2000 \<le> u \<and> u \<le> 0x200A) \<or> u = 0x2028 \<or> u = 0x2029 \<or> u = 0x202F
        \<or> u = 0x205F \<or> u = 0x3000)"

text \<open>\<^verbatim>\<open>QString::trimmed\<close>: whitespace removed from the start and the end.\<close>

definition QString_trimmed :: "QString \<Rightarrow> QString" where
  "QString_trimmed s = rev (dropWhile QChar_isSpace (rev (dropWhile QChar_isSpace s)))"

text \<open>
  \<^verbatim>\<open>QString::operator[](int) const\<close> is
  \<^verbatim>\<open>Q_ASSERT(uint(i) < uint(size())); return d->data()[i];\<close>
  an index outside the string fails the assertion in a debug build and reads outside the
  character data otherwise. Both are the failure \<open>IndexOutOfRange\<close> here.
\<close>

datatype failure = IndexOutOfRange

definition QString_at :: "QString \<Rightarrow> int \<Rightarrow> failure + QChar" where
  "QString_at s i = (if 0 \<le> i \<and> i < int (length s) then Inr (s ! nat i) else Inl IndexOutOfRange)"

text \<open>\<^verbatim>\<open>QString::right(n)\<close>: the last \<open>n\<close> code units, the whole string when it is shorter.\<close>

definition QString_right :: "QString \<Rightarrow> nat \<Rightarrow> QString" where
  "QString_right s n = (if n \<ge> length s then s else drop (length s - n) s)"

text \<open>
  \<^verbatim>\<open>QString::toUtf8\<close>. A surrogate pair becomes the four bytes of its code point; a
  surrogate on its own cannot be encoded and becomes \<^verbatim>\<open>?\<close>.
\<close>

definition utf8_bytes :: "nat \<Rightarrow> QByteArray" where
  "utf8_bytes u =
     (if u < 0x80 then [char_of u]
      else if u < 0x800 then [char_of (0xC0 + u div 0x40), char_of (0x80 + u mod 0x40)]
      else if u < 0x10000 then
        [char_of (0xE0 + u div 0x1000), char_of (0x80 + u div 0x40 mod 0x40),
         char_of (0x80 + u mod 0x40)]
      else
        [char_of (0xF0 + u div 0x40000), char_of (0x80 + u div 0x1000 mod 0x40),
         char_of (0x80 + u div 0x40 mod 0x40), char_of (0x80 + u mod 0x40)])"

definition isHighSurrogate :: "QChar \<Rightarrow> bool" where
  "isHighSurrogate c = (0xD800 \<le> unat c \<and> unat c \<le> 0xDBFF)"

definition isLowSurrogate :: "QChar \<Rightarrow> bool" where
  "isLowSurrogate c = (0xDC00 \<le> unat c \<and> unat c \<le> 0xDFFF)"

fun QString_toUtf8 :: "QString \<Rightarrow> QByteArray" where
  "QString_toUtf8 [] = []"
| "QString_toUtf8 [c] =
     (if isHighSurrogate c \<or> isLowSurrogate c then ''?'' else utf8_bytes (unat c))"
| "QString_toUtf8 (c # d # s) =
     (if isHighSurrogate c then
        (if isLowSurrogate d
         then utf8_bytes (0x10000 + (unat c - 0xD800) * 0x400 + (unat d - 0xDC00))
                @ QString_toUtf8 s
         else CHR ''?'' # QString_toUtf8 (d # s))
      else if isLowSurrogate c then CHR ''?'' # QString_toUtf8 (d # s)
      else utf8_bytes (unat c) @ QString_toUtf8 (d # s))"

subsection \<open>Byte arrays\<close>

text \<open>\<^verbatim>\<open>QByteArray::indexOf(char)\<close>: the index of the first occurrence, \<open>-1\<close> when there is none.\<close>

fun QByteArray_indexOf :: "QByteArray \<Rightarrow> char \<Rightarrow> int" where
  "QByteArray_indexOf [] ch = -1"
| "QByteArray_indexOf (c # cs) ch =
     (if c = ch then 0
      else (let i = QByteArray_indexOf cs ch in if i < 0 then -1 else i + 1))"

text \<open>
  \<^verbatim>\<open>QByteArray::right(len)\<close>:
  \<^verbatim>\<open>if (len >= d->size) return *this; if (len < 0) len = 0; return QByteArray(end() - len, len);\<close>
\<close>

definition QByteArray_right :: "QByteArray \<Rightarrow> int \<Rightarrow> QByteArray" where
  "QByteArray_right ba len =
     (if len \<ge> int (length ba) then ba
      else (let len = (if len < 0 then 0 else len) in drop (length ba - nat len) ba))"

text \<open>
  \<^verbatim>\<open>QByteArray::trimmed\<close> removes the bytes for which \<^verbatim>\<open>isspace\<close> holds in the C locale:
  tab, newline, vertical tab, form feed, carriage return and space.
\<close>

definition ascii_isspace :: "char \<Rightarrow> bool" where
  "ascii_isspace c = ((0x09 \<le> (of_char c :: nat) \<and> (of_char c :: nat) \<le> 0x0D) \<or> c = CHR 0x20)"

definition QByteArray_trimmed :: "QByteArray \<Rightarrow> QByteArray" where
  "QByteArray_trimmed ba = rev (dropWhile ascii_isspace (rev (dropWhile ascii_isspace ba)))"

section \<open>Qt's JSON documents\<close>

text \<open>
  \<^verbatim>\<open>QJsonDocument::fromJson\<close> and \<^verbatim>\<open>QJsonDocument::toJson\<close> belong to Qt, not to the
  client. The model below follows Qt 5's parser and writer: the grammar they accept and
  print, the nesting limit, the lenient escapes, and objects as maps kept in key order in
  which a later duplicate replaces an earlier one. A number is carried as its decimal
  text: the parser keeps the literal it read and the writer prints the text, so the
  conversion between text and IEEE doubles (and the range check it implies) is outside the
  model. The parser's error code is not modelled either: a text that does not parse gives
  the null document.
\<close>

datatype QJsonValue =
    JNull
  | JBool bool
  | JDouble QByteArray
  | JString QString
  | JArray "QJsonValue list"
  | JObject "(QString \<times> QJsonValue) list"

type_synonym QJsonObject = "(QString \<times> QJsonValue) list"

datatype QJsonDocument = NullDocument | ArrayDocument "QJsonValue list" | ObjectDocument QJsonObject

fun QJsonDocument_isObject :: "QJsonDocument \<Rightarrow> bool" where
  "QJsonDocument_isObject (ObjectDocument ms) = True"
| "QJsonDocument_isObject _ = False"

text \<open>\<^verbatim>\<open>QJsonDocument::object\<close>: the empty object when the document holds none.\<close>

fun QJsonDocument_object :: "QJsonDocument \<Rightarrow> QJsonObject" where
  "QJsonDocument_object (ObjectDocument ms) = ms"
| "QJsonDocument_object _ = []"

text \<open>Keys are ordered as \<^verbatim>\<open>QString\<close>s are: code unit by code unit, a prefix first.\<close>

fun QString_less :: "QString \<Rightarrow> QString \<Rightarrow> bool" where
  "QString_less [] [] = False"
| "QString_less [] (y # ys) = True"
| "QString_less (x # xs) [] = False"
| "QString_less (x # xs) (y # ys) = (x < y \<or> (x = y \<and> QString_less xs ys))"

fun QJsonObject_insert :: "QString \<Rightarrow> QJsonValue \<Rightarrow> QJsonObject \<Rightarrow> QJsonObject" where
  "QJsonObject_insert k v [] = [(k, v)]"
| "QJsonObject_insert k v ((k', v') # ms) =
     (if k = k' then (k, v) # ms
      else if QString_less k k' then (k, v) # (k', v') # ms
      else (k', v') # QJsonObject_insert k v ms)"

subsection \<open>Strings and numbers of a JSON text\<close>

definition byte :: "char \<Rightarrow> nat" where
  "byte c = of_char c"

definition addHexDigit :: "char \<Rightarrow> nat option" where
  "addHexDigit c =
     (let u = byte c in
        if 0x30 \<le> u \<and> u \<le> 0x39 then Some (u - 0x30)
        else if 0x61 \<le> u \<and> u \<le> 0x66 then Some (u - 0x61 + 10)
        else if 0x41 \<le> u \<and> u \<le> 0x46 then Some (u - 0x41 + 10)
        else None)"

text \<open>
  The bytes after a backslash. An escape Qt does not know stands for the escaped byte
  itself; Qt's source calls this not as strict as one could be.
\<close>

fun scanEscapeSequence :: "QByteArray \<Rightarrow> (QChar \<times> QByteArray) option" where
  "scanEscapeSequence [] = None"
| "scanEscapeSequence (escaped # json) =
     (if escaped = CHR 0x22 then Some (0x22, json)
      else if escaped = CHR 0x5C then Some (0x5C, json)
      else if escaped = CHR ''/'' then Some (0x2F, json)
      else if escaped = CHR ''b'' then Some (0x08, json)
      else if escaped = CHR ''f'' then Some (0x0C, json)
      else if escaped = CHR ''n'' then Some (0x0A, json)
      else if escaped = CHR ''r'' then Some (0x0D, json)
      else if escaped = CHR ''t'' then Some (0x09, json)
      else if escaped = CHR ''u'' then
        (case json of
           a # b # c # d # rest \<Rightarrow>
             (case (addHexDigit a, addHexDigit b, addHexDigit c, addHexDigit d) of
                (Some h3, Some h2, Some h1, Some h0) \<Rightarrow>
                  Some (of_nat (((h3 * 16 + h2) * 16 + h1) * 16 + h0), rest)
              | _ \<Rightarrow> None)
         | _ \<Rightarrow> None)
      else Some (QChar_fromLatin1 escaped, json))"

definition isContinuation :: "char \<Rightarrow> bool" where
  "isContinuation c = (0x80 \<le> byte c \<and> byte c \<le> 0xBF)"

text \<open>
  One UTF-8 encoded code point: no overlong form, no surrogate, nothing above U+10FFFF.
\<close>

fun scanUtf8Char :: "QByteArray \<Rightarrow> (nat \<times> QByteArray) option" where
  "scanUtf8Char [] = None"
| "scanUtf8Char (b # json) =
     (let u = byte b in
        if u < 0x80 then Some (u, json)
        else if 0xC2 \<le> u \<and> u \<le> 0xDF then
          (case json of
             c1 # rest \<Rightarrow>
               if isContinuation c1 then Some ((u - 0xC0) * 0x40 + (byte c1 - 0x80), rest)
               else None
           | _ \<Rightarrow> None)
        else if 0xE0 \<le> u \<and> u \<le> 0xEF then
          (case json of
             c1 # c2 # rest \<Rightarrow>
               if isContinuation c1 \<and> isContinuation c2 then
                 (let ucs4 = ((u - 0xE0) * 0x40 + (byte c1 - 0x80)) * 0x40 + (byte c2 - 0x80)
                  in if ucs4 < 0x800 \<or> (0xD800 \<le> ucs4 \<and> ucs4 \<le> 0xDFFF) then None
                     else Some (ucs4, rest))
               else None
           | _ \<Rightarrow> None)
        else if 0xF0 \<le> u \<and> u \<le> 0xF4 then
          (case json of
             c1 # c2 # c3 # rest \<Rightarrow>
               if isContinuation c1 \<and> isContinuation c2 \<and> isContinuation c3 then
                 (let ucs4 = (((u - 0xF0) * 0x40 + (byte c1 - 0x80)) * 0x40
                                + (byte c2 - 0x80)) * 0x40 + (byte c3 - 0x80)
                  in if ucs4 < 0x10000 \<or> 0x10FFFF < ucs4 then None
                     else Some (ucs4, rest))
               else None
           | _ \<Rightarrow> None)
        else None)"

text \<open>The code units of a code point: itself, or its surrogate pair.\<close>

definition ucs4_units :: "nat \<Rightarrow> QString" where
  "ucs4_units ucs4 =
     (if 0x10000 \<le> ucs4
      then [of_nat (ucs4 div 0x400 + 0xD7C0), of_nat (ucs4 mod 0x400 + 0xDC00)]
      else [of_nat ucs4])"

lemma scanEscapeSequence_shorter:
  "scanEscapeSequence json = Some (u, rest) \<Longrightarrow> length rest < length json"
  by (cases json) (auto split: if_splits list.splits option.splits)

lemma scanUtf8Char_shorter:
  "scanUtf8Char json = Some (u, rest) \<Longrightarrow> length rest < length json"
  by (cases json) (auto simp: Let_def split: if_splits list.splits)

text \<open>
  The string after its opening quote, and what follows its closing quote. A string that
  ends the text is refused (\<^verbatim>\<open>UnterminatedString\<close>).
\<close>

function parseString :: "QByteArray \<Rightarrow> (QString \<times> QByteArray) option" where
  "parseString [] = None"
| "parseString (c # json) =
     (if c = CHR 0x22 then (if json = [] then None else Some ([], json))
      else if c = CHR 0x5C then
        (case scanEscapeSequence json of
           None \<Rightarrow> None
         | Some (u, rest) \<Rightarrow>
             (case parseString rest of None \<Rightarrow> None | Some (s, rest') \<Rightarrow> Some (u # s, rest')))
      else
        (case scanUtf8Char (c # json) of
           None \<Rightarrow> None
         | Some (ucs4, rest) \<Rightarrow>
             (case parseString rest of
                None \<Rightarrow> None
              | Some (s, rest') \<Rightarrow> Some (ucs4_units ucs4 @ s, rest'))))"
  by pat_completeness auto
termination
proof (relation "measure length")
  show "wf (measure length)" by simp
next
  fix c json x u rest
  assume "scanEscapeSequence json = Some x" "(u, rest) = x"
  then show "(rest, c # json) \<in> measure length"
    using scanEscapeSequence_shorter [of json u rest] by simp
next
  fix c json x ucs4 rest
  assume "scanUtf8Char (c # json) = Some x" "(ucs4, rest) = x"
  then show "(rest, c # json) \<in> measure length"
    using scanUtf8Char_shorter [of "c # json" ucs4 rest] by simp
qed

text \<open>
  A number is scanned as an optional minus, an integer part (a single zero, or digits),
  an optional fraction and an optional exponent. The text scanned must then convert
  (\<^verbatim>\<open>toInt\<close>, \<^verbatim>\<open>toDouble\<close>): it needs a digit in its mantissa, and digits in its exponent
  when it has one. A number that ends the text is refused (\<^verbatim>\<open>TerminationByNumber\<close>).
\<close>

definition isDigit :: "char \<Rightarrow> bool" where
  "isDigit c = (0x30 \<le> byte c \<and> byte c \<le> 0x39)"

definition scanSign :: "char list \<Rightarrow> QByteArray \<Rightarrow> QByteArray \<times> QByteArray" where
  "scanSign signs json =
     (case json of
        c # rest \<Rightarrow> if c \<in> set signs then ([c], rest) else ([], json)
      | [] \<Rightarrow> ([], json))"

definition scanDigits :: "QByteArray \<Rightarrow> QByteArray \<times> QByteArray" where
  "scanDigits json = (takeWhile isDigit json, dropWhile isDigit json)"

definition scanInt :: "QByteArray \<Rightarrow> QByteArray \<times> QByteArray" where
  "scanInt json =
     (case json of
        c # rest \<Rightarrow> if c = CHR ''0'' then ([c], rest) else scanDigits json
      | [] \<Rightarrow> ([], json))"

definition scanFrac :: "QByteArray \<Rightarrow> QByteArray \<times> QByteArray" where
  "scanFrac json =
     (case json of
        c # rest \<Rightarrow>
          if c = CHR ''.'' then (let (ds, rest') = scanDigits rest in (c # ds, rest'))
          else ([], json)
      | [] \<Rightarrow> ([], json))"

definition scanExp :: "QByteArray \<Rightarrow> QByteArray \<times> QByteArray" where
  "scanExp json =
     (case json of
        c # rest \<Rightarrow>
          if c = CHR ''e'' \<or> c = CHR ''E'' then
            (let (sg, rest') = scanSign ''-+'' rest; (ds, rest'') = scanDigits rest'
             in (c # sg @ ds, rest''))
          else ([], json)
      | [] \<Rightarrow> ([], json))"

definition scanNumber :: "QByteArray \<Rightarrow> QByteArray \<times> QByteArray" where
  "scanNumber json =
     (let (sg, r0) = scanSign ''-'' json;
          (ip, r1) = scanInt r0;
          (fp, r2) = scanFrac r1;
          (ep, r3) = scanExp r2
      in (sg @ ip @ fp @ ep, r3))"

definition validNumber :: "QByteArray \<Rightarrow> bool" where
  "validNumber number =
     (let (sg, r0) = scanSign ''-'' number;
          (ip, r1) = scanDigits r0;
          (fp, r2) = scanFrac r1;
          (ep, r3) = scanExp r2
      in r3 = [] \<and> filter isDigit (ip @ fp) \<noteq> [] \<and> (ep = [] \<or> filter isDigit ep \<noteq> []))"

lemma scanSign_append: "scanSign signs json = (a, rest) \<Longrightarrow> a @ rest = json"
  by (auto simp: scanSign_def split: list.splits if_splits)

lemma scanDigits_append: "scanDigits json = (a, rest) \<Longrightarrow> a @ rest = json"
  by (auto simp: scanDigits_def)

lemma scanInt_append: "scanInt json = (a, rest) \<Longrightarrow> a @ rest = json"
  by (auto simp: scanInt_def scanDigits_def split: list.splits if_splits)

lemma scanFrac_append: "scanFrac json = (a, rest) \<Longrightarrow> a @ rest = json"
  by (auto simp: scanFrac_def scanDigits_def split: list.splits if_splits)

lemma scanExp_append: "scanExp json = (a, rest) \<Longrightarrow> a @ rest = json"
  by (auto simp: scanExp_def scanDigits_def Let_def
      split: list.splits if_splits prod.splits dest!: scanSign_append)

lemma scanNumber_append: "scanNumber json = (number, rest) \<Longrightarrow> number @ rest = json"
  by (auto simp: scanNumber_def Let_def split: prod.splits
      dest!: scanSign_append scanInt_append scanFrac_append scanExp_append)

lemma validNumber_nonempty: "validNumber number \<Longrightarrow> number \<noteq> []"
  by (auto simp: validNumber_def scanSign_def scanDigits_def scanFrac_def)

lemma parseString_shorter: "parseString json = Some (s, rest) \<Longrightarrow> length rest < length json"
proof (induction json arbitrary: s rest rule: parseString.induct)
  case 1
  then show ?case by simp
next
  case (2 c json)
  show ?case
  proof (cases "c = CHR 0x22")
    case True
    with "2.prems" show ?thesis by (auto split: if_splits)
  next
    case q: False
    show ?thesis
    proof (cases "c = CHR 0x5C")
      case True
      with q "2.prems" obtain u r s' where e: "scanEscapeSequence json = Some (u, r)"
        and p: "parseString r = Some (s', rest)"
        by (auto split: option.splits)
      from "2.IH"(1) [OF q True e refl p] scanEscapeSequence_shorter [OF e]
      show ?thesis by simp
    next
      case False
      with q "2.prems" obtain u r s' where e: "scanUtf8Char (c # json) = Some (u, r)"
        and p: "parseString r = Some (s', rest)"
        by (auto split: option.splits)
      from "2.IH"(2) [OF q False e refl p] scanUtf8Char_shorter [OF e]
      show ?thesis by simp
    qed
  qed
qed

subsection \<open>Tokens\<close>

text \<open>
  Between tokens the parser skips space, tab, line feed and carriage return. The
  structural characters, a quoted string, the three literals and a number are the tokens;
  any other byte ends the parse.
\<close>

datatype token =
    BeginArray | EndArray | BeginObject | EndObject | NameSeparator | ValueSeparator
  | Quoted QString
  | Scalar QJsonValue

definition isJsonSpace :: "char \<Rightarrow> bool" where
  "isJsonSpace c = (c = CHR 0x20 \<or> c = CHR 0x09 \<or> c = CHR 0x0A \<or> c = CHR 0x0D)"

function nextTokens :: "QByteArray \<Rightarrow> token list option" where
  "nextTokens [] = Some []"
| "nextTokens (c # json) =
     (if isJsonSpace c then nextTokens json
      else if c = CHR ''['' then map_option ((#) BeginArray) (nextTokens json)
      else if c = CHR '']'' then map_option ((#) EndArray) (nextTokens json)
      else if c = CHR ''{'' then map_option ((#) BeginObject) (nextTokens json)
      else if c = CHR ''}'' then map_option ((#) EndObject) (nextTokens json)
      else if c = CHR '':'' then map_option ((#) NameSeparator) (nextTokens json)
      else if c = CHR '','' then map_option ((#) ValueSeparator) (nextTokens json)
      else if c = CHR 0x22 then
        (case parseString json of
           None \<Rightarrow> None
         | Some (s, rest) \<Rightarrow> map_option ((#) (Quoted s)) (nextTokens rest))
      else if c = CHR ''n'' then
        (if take 3 json = ''ull'' then map_option ((#) (Scalar JNull)) (nextTokens (drop 3 json))
         else None)
      else if c = CHR ''t'' then
        (if take 3 json = ''rue''
         then map_option ((#) (Scalar (JBool True))) (nextTokens (drop 3 json))
         else None)
      else if c = CHR ''f'' then
        (if take 4 json = ''alse''
         then map_option ((#) (Scalar (JBool False))) (nextTokens (drop 4 json))
         else None)
      else
        (case scanNumber (c # json) of
           (number, rest) \<Rightarrow>
             if validNumber number \<and> rest \<noteq> []
             then map_option ((#) (Scalar (JDouble number))) (nextTokens rest)
             else None))"
  by pat_completeness auto
termination
proof (relation "measure length")
  fix c json x s rest
  assume "parseString json = Some x" "(s, rest) = x"
  then show "(rest, c # json) \<in> measure length"
    using parseString_shorter [of json s rest] by simp
next
  fix c json x number rest
  assume "(number, rest) = scanNumber (c # json)" "validNumber number \<and> rest \<noteq> []"
  then show "(rest, c # json) \<in> measure length"
    using scanNumber_append [of "c # json" number rest] validNumber_nonempty [of number]
    by (cases number) auto
qed simp_all

subsection \<open>Documents\<close>

text \<open>
  The grammar over the tokens, run with an explicit stack of the arrays and objects that
  are open: an array holds its values so far, an object its members so far and, once a
  name has been read, that name. Opening an array or an object beyond 1024 levels is
  refused (\<^verbatim>\<open>DeepNesting\<close>). Only an array or an object can be a document.
\<close>

datatype frame =
    InArray "QJsonValue list"
  | InObject QJsonObject
  | InMember QJsonObject QString

datatype expect =
    ExpectDocument
  | ExpectValue
  | ExpectValueOrEndArray
  | ExpectName
  | ExpectNameOrEndObject
  | ExpectNameSeparator
  | ExpectSeparatorOrEnd
  | Finished QJsonValue

definition nestingLimit :: nat where
  "nestingLimit = 1024"

fun complete :: "QJsonValue \<Rightarrow> frame list \<Rightarrow> (frame list \<times> expect) option" where
  "complete v [] = Some ([], Finished v)"
| "complete v (InArray vs # stack) = Some (InArray (vs @ [v]) # stack, ExpectSeparatorOrEnd)"
| "complete v (InMember ms k # stack) =
     Some (InObject (QJsonObject_insert k v ms) # stack, ExpectSeparatorOrEnd)"
| "complete v (InObject ms # stack) = None"

fun parseValue :: "token \<Rightarrow> frame list \<Rightarrow> (frame list \<times> expect) option" where
  "parseValue BeginArray stack =
     (if length stack \<ge> nestingLimit then None
      else Some (InArray [] # stack, ExpectValueOrEndArray))"
| "parseValue BeginObject stack =
     (if length stack \<ge> nestingLimit then None
      else Some (InObject [] # stack, ExpectNameOrEndObject))"
| "parseValue (Quoted s) stack = complete (JString s) stack"
| "parseValue (Scalar v) stack = complete v stack"
| "parseValue _ stack = None"

fun parseName :: "token \<Rightarrow> QJsonObject \<Rightarrow> frame list \<Rightarrow> (frame list \<times> expect) option" where
  "parseName (Quoted k) ms stack = Some (InMember ms k # stack, ExpectNameSeparator)"
| "parseName _ ms stack = None"

fun parseToken :: "frame list \<times> expect \<Rightarrow> token \<Rightarrow> (frame list \<times> expect) option" where
  "parseToken (stack, ExpectDocument) t =
     (if t = BeginArray \<or> t = BeginObject then parseValue t stack else None)"
| "parseToken (stack, ExpectValue) t = parseValue t stack"
| "parseToken (InArray vs # stack, ExpectValueOrEndArray) t =
     (if t = EndArray then complete (JArray vs) stack else parseValue t (InArray vs # stack))"
| "parseToken (InObject ms # stack, ExpectNameOrEndObject) t =
     (if t = EndObject then complete (JObject ms) stack else parseName t ms stack)"
| "parseToken (InObject ms # stack, ExpectName) t = parseName t ms stack"
| "parseToken (stack, ExpectNameSeparator) t =
     (if t = NameSeparator then Some (stack, ExpectValue) else None)"
| "parseToken (InArray vs # stack, ExpectSeparatorOrEnd) t =
     (if t = ValueSeparator then Some (InArray vs # stack, ExpectValue)
      else if t = EndArray then complete (JArray vs) stack
      else None)"
| "parseToken (InObject ms # stack, ExpectSeparatorOrEnd) t =
     (if t = ValueSeparator then Some (InObject ms # stack, ExpectName)
      else if t = EndObject then complete (JObject ms) stack
      else None)"
| "parseToken _ t = None"

fun parseTokens :: "frame list \<times> expect \<Rightarrow> token list \<Rightarrow> QJsonValue option" where
  "parseTokens (stack, Finished v) [] = Some v"
| "parseTokens (stack, e) [] = None"
| "parseTokens state (t # ts) =
     (case parseToken state t of None \<Rightarrow> None | Some state' \<Rightarrow> parseTokens state' ts)"

text \<open>A UTF-8 byte order mark in front of the text is skipped.\<close>

definition eatBOM :: "QByteArray \<Rightarrow> QByteArray" where
  "eatBOM json =
     (if length json > 3 \<and> take 3 json = [CHR 0xEF, CHR 0xBB, CHR 0xBF] then drop 3 json
      else json)"

definition QJsonDocument_fromJson :: "QByteArray \<Rightarrow> QJsonDocument" where
  "QJsonDocument_fromJson json =
     (case nextTokens (eatBOM json) of
        None \<Rightarrow> NullDocument
      | Some ts \<Rightarrow>
          (case parseTokens ([], ExpectDocument) ts of
             Some (JArray vs) \<Rightarrow> ArrayDocument vs
           | Some (JObject ms) \<Rightarrow> ObjectDocument ms
           | _ \<Rightarrow> NullDocument))"

subsection \<open>The compact writer\<close>

definition hexdig :: "nat \<Rightarrow> char" where
  "hexdig u = ''0123456789abcdef'' ! (u mod 16)"

text \<open>
  \<^verbatim>\<open>escapedString\<close> of the writer: quote, backslash and the controls are escaped, other
  ASCII is copied, anything else is written in UTF-8 as \<^verbatim>\<open>QString::toUtf8\<close> does.
\<close>

definition escapedAscii :: "nat \<Rightarrow> QByteArray" where
  "escapedAscii u =
     (if u < 0x20 \<or> u = 0x22 \<or> u = 0x5C then
        CHR 0x5C #
          (if u = 0x22 then [CHR 0x22]
           else if u = 0x5C then [CHR 0x5C]
           else if u = 0x08 then ''b''
           else if u = 0x0C then ''f''
           else if u = 0x0A then ''n''
           else if u = 0x0D then ''r''
           else if u = 0x09 then ''t''
           else [CHR ''u'', CHR ''0'', CHR ''0'', hexdig (u div 16), hexdig u])
      else [char_of u])"

fun escapedString :: "QString \<Rightarrow> QByteArray" where
  "escapedString [] = []"
| "escapedString [c] =
     (if unat c < 0x80 then escapedAscii (unat c)
      else if isHighSurrogate c \<or> isLowSurrogate c then ''?''
      else utf8_bytes (unat c))"
| "escapedString (c # d # s) =
     (if unat c < 0x80 then escapedAscii (unat c) @ escapedString (d # s)
      else if isHighSurrogate c then
        (if isLowSurrogate d
         then utf8_bytes (0x10000 + (unat c - 0xD800) * 0x400 + (unat d - 0xDC00))
                @ escapedString s
         else CHR ''?'' # escapedString (d # s))
      else if isLowSurrogate c then CHR ''?'' # escapedString (d # s)
      else utf8_bytes (unat c) @ escapedString (d # s))"

definition commaSeparated :: "QByteArray list \<Rightarrow> QByteArray" where
  "commaSeparated items = concat (case items of [] \<Rightarrow> [] | x # xs \<Rightarrow> x # map ((#) CHR '','') xs)"

fun valueToJson :: "QJsonValue \<Rightarrow> QByteArray" where
  "valueToJson JNull = ''null''"
| "valueToJson (JBool b) = (if b then ''true'' else ''false'')"
| "valueToJson (JDouble d) = d"
| "valueToJson (JString s) = [CHR 0x22] @ escapedString s @ [CHR 0x22]"
| "valueToJson (JArray vs) = ''['' @ commaSeparated (map valueToJson vs) @ '']''"
| "valueToJson (JObject ms) =
     ''{'' @ commaSeparated
              (map (\<lambda>(k, v). [CHR 0x22] @ escapedString k @ [CHR 0x22] @ '':'' @ valueToJson v) ms)
        @ ''}''"

text \<open>\<^verbatim>\<open>QJsonDocument::toJson(QJsonDocument::Compact)\<close>.\<close>

definition QJsonDocument_toJson_Compact :: "QJsonDocument \<Rightarrow> QByteArray" where
  "QJsonDocument_toJson_Compact doc =
     (case doc of
        NullDocument \<Rightarrow> []
      | ArrayDocument vs \<Rightarrow> valueToJson (JArray vs)
      | ObjectDocument ms \<Rightarrow> valueToJson (JObject ms))"

section \<open>The network, as the client sees it\<close>

text \<open>\<^verbatim>\<open>QUrl\<close>, as the string it was made from; \<^verbatim>\<open>QUrl::isEmpty\<close> is emptiness of it.\<close>

datatype QUrl = QUrl QString

fun QUrl_isEmpty :: "QUrl \<Rightarrow> bool" where
  "QUrl_isEmpty (QUrl s) = (s = [])"

datatype KnownHeader = ContentTypeHeader

record QNetworkRequest =
  url :: QUrl
  knownHeaders :: "(KnownHeader \<times> QByteArray) list"
  rawHeaders :: "(QByteArray \<times> QByteArray) list"

definition QNetworkRequest_new :: "QUrl \<Rightarrow> QNetworkRequest" where
  "QNetworkRequest_new u = \<lparr>url = u, knownHeaders = [], rawHeaders = []\<rparr>"

definition setHeader :: "QNetworkRequest \<Rightarrow> KnownHeader \<Rightarrow> QByteArray \<Rightarrow> QNetworkRequest" where
  "setHeader request h v = request\<lparr>knownHeaders := AList.update h v (knownHeaders request)\<rparr>"

definition setRawHeader :: "QNetworkRequest \<Rightarrow> QByteArray \<Rightarrow> QByteArray \<Rightarrow> QNetworkRequest" where
  "setRawHeader request h v = request\<lparr>rawHeaders := AList.update h v (rawHeaders request)\<rparr>"

text \<open>
  A \<^verbatim>\<open>QNetworkReply\<close>: the bytes that have arrived and have not been read, and the
  redirection target attribute (\<open>None\<close> when the transport set none, which
  \<^verbatim>\<open>QVariant::toUrl\<close> turns into the empty URL).
\<close>

record QNetworkReply =
  available :: QByteArray
  redirectionTarget :: "QUrl option"

definition QVariant_toUrl :: "QUrl option \<Rightarrow> QUrl" where
  "QVariant_toUrl v = (case v of None \<Rightarrow> QUrl [] | Some u \<Rightarrow> u)"

text \<open>
  \<^verbatim>\<open>QIODevice::readLine\<close>: the bytes up to and including the first line feed, all of them
  when there is none; with it, what stays in the device. \<^verbatim>\<open>readAll\<close> takes everything.
\<close>

fun QIODevice_readLine :: "QByteArray \<Rightarrow> QByteArray \<times> QByteArray" where
  "QIODevice_readLine [] = ([], [])"
| "QIODevice_readLine (c # cs) =
     (if c = CHR 0x0A then ([c], cs)
      else (case QIODevice_readLine cs of (line, rest) \<Rightarrow> (c # line, rest)))"

definition QIODevice_readAll :: "QByteArray \<Rightarrow> QByteArray \<times> QByteArray" where
  "QIODevice_readAll bytes = (bytes, [])"

text \<open>A \<^verbatim>\<open>QBuffer\<close>: its bytes, the position, and whether it is open.\<close>

record QBuffer =
  buffer_data :: QByteArray
  buffer_pos :: nat
  buffer_isOpen :: bool

definition QBuffer_new :: QBuffer where
  "QBuffer_new = \<lparr>buffer_data = [], buffer_pos = 0, buffer_isOpen = False\<rparr>"

definition QBuffer_open :: "QBuffer \<Rightarrow> QBuffer" where
  "QBuffer_open b = b\<lparr>buffer_pos := 0, buffer_isOpen := True\<rparr>"

definition QBuffer_write :: "QBuffer \<Rightarrow> QByteArray \<Rightarrow> QBuffer" where
  "QBuffer_write b bytes =
     (if buffer_isOpen b
      then b\<lparr>buffer_data := take (buffer_pos b) (buffer_data b) @ bytes
                               @ drop (buffer_pos b + length bytes) (buffer_data b),
              buffer_pos := buffer_pos b + length bytes\<rparr>
      else b)"

definition QBuffer_seek :: "QBuffer \<Rightarrow> nat \<Rightarrow> QBuffer" where
  "QBuffer_seek b p =
     (if buffer_isOpen b \<and> p \<le> length (buffer_data b) then b\<lparr>buffer_pos := p\<rparr> else b)"

text \<open>
  What a call of the client does to the outside, in the order of the calls: the signals
  it emits, the requests it hands to the network manager (a body is the device as it is
  at the call), the connections it makes on the reply the manager has just returned, what
  it does to a reply or a buffer afterwards, and the lines it logs. The text of a log
  line is its kind and the bytes it quotes.
\<close>

datatype replySignal = ReadyRead | ReplyFinished

datatype handler = On_eventReadyRead | On_eventFinished | On_functionFinished | On_getValueFinished

datatype logLine =
    UnknownFirebaseEvent QByteArray
  | MalformedFirebasePutData QByteArray
  | NoGetValueReplyImplementation

datatype effect =
    Emit_eventKeepAlive
  | Emit_eventPut QJsonObject
  | Emit_functionResponseReady QByteArray
  | Manager_get QNetworkRequest
  | Manager_sendCustomRequest QNetworkRequest QByteArray QBuffer
  | Connect replySignal handler
  | Buffer_close
  | Reply_deleteLater
  | Warning logLine
  | Debug logLine

fun isNotification :: "effect \<Rightarrow> bool" where
  "isNotification Emit_eventKeepAlive = True"
| "isNotification (Emit_eventPut obj) = True"
| "isNotification (Emit_functionResponseReady bytes) = True"
| "isNotification _ = False"

fun isRequest :: "effect \<Rightarrow> bool" where
  "isRequest (Manager_get request) = True"
| "isRequest (Manager_sendCustomRequest request verb body) = True"
| "isRequest _ = False"

section \<open>The client\<close>

text \<open>
  The fields of \<^verbatim>\<open>class Firebase\<close>. The network manager \<^verbatim>\<open>mManager\<close> is not a field
  of the model: what the client asks of it is in the effects of each call.
\<close>

record Firebase =
  mFirebaseFunctionHost :: QString
  mFirebaseToken :: QString
  mHost :: QString

subsection \<open>Path building\<close>

text \<open>
  \<^verbatim>\<open>Firebase::forceEndChar\<close> reads \<^verbatim>\<open>string[string.length()-1]\<close> with no check of the
  length.
\<close>

definition forceEndChar :: "QString \<Rightarrow> char \<Rightarrow> failure + QString" where
  "forceEndChar string endCh =
     (case QString_at string (int (length string) - 1) of
        Inl e \<Rightarrow> Inl e
      | Inr c \<Rightarrow>
          if c \<noteq> QChar_fromLatin1 endCh then Inr (string @ [QChar_fromLatin1 endCh])
          else Inr string)"

text \<open>\<^verbatim>\<open>Firebase::forceStartChar\<close> reads \<^verbatim>\<open>string[0]\<close> only when the string is not empty.\<close>

definition forceStartChar :: "QString \<Rightarrow> char \<Rightarrow> QString" where
  "forceStartChar string startCh =
     (if length string > 0 \<and> string ! 0 \<noteq> QChar_fromLatin1 startCh
      then QChar_fromLatin1 startCh # string
      else string)"

text \<open>
  The constructor \<^verbatim>\<open>Firebase::Firebase(hostName, firebaseFunctionHost, dbPath, parent)\<close>:
  the object it leaves and its effects. It creates the network manager and asks nothing
  of it.
\<close>

definition Firebase_ctor ::
  "QString \<Rightarrow> QString \<Rightarrow> QString \<Rightarrow> failure + (Firebase \<times> effect list)" where
  "Firebase_ctor hostName firebaseFunctionHost dbPath =
     (case forceEndChar (QString_trimmed hostName) CHR ''/'' of
        Inl e \<Rightarrow> Inl e
      | Inr h \<Rightarrow>
          Inr (\<lparr>mFirebaseFunctionHost = firebaseFunctionHost,
                mFirebaseToken = QS '''',
                mHost = h @ QString_trimmed dbPath\<rparr>, []))"

text \<open>\<^verbatim>\<open>Firebase::buildPath\<close>.\<close>

definition buildPath :: "Firebase \<Rightarrow> QString \<Rightarrow> QString" where
  "buildPath fb queryString =
     (let destination = mHost fb;
          dotJsonLength = 5;
          destination =
            (if length destination \<le> dotJsonLength
                \<or> QString_right destination dotJsonLength \<noteq> QS ''.json''
             then destination @ QS ''.json'' else destination);
          destination =
            (if length queryString > 0
             then destination @ forceStartChar queryString CHR ''?'' else destination)
      in destination)"

text \<open>\<^verbatim>\<open>Firebase::getPath\<close>.\<close>

definition getPath :: "Firebase \<Rightarrow> QString \<Rightarrow> QString" where
  "getPath fb queryString = buildPath fb queryString"

subsection \<open>Requests\<close>

text \<open>
  \<^verbatim>\<open>Firebase::setValue\<close>. The buffer is closed right after the request has been handed
  over; what the manager reads from it later is Qt's business.
\<close>

definition setValue :: "Firebase \<Rightarrow> QJsonDocument \<Rightarrow> QString \<Rightarrow> QString \<Rightarrow> effect list" where
  "setValue fb jsonDoc verb queryString =
     (let path = buildPath fb queryString;
          request = QNetworkRequest_new (QUrl path);
          request = setHeader request ContentTypeHeader ''application/x-www-form-urlencoded'';
          jsonBA = QJsonDocument_toJson_Compact jsonDoc;
          buffer = QBuffer_new;
          buffer = QBuffer_open buffer;
          buffer = QBuffer_write buffer jsonBA;
          buffer = QBuffer_seek buffer 0;
          verbBA = QString_toUtf8 verb
      in [Manager_sendCustomRequest request verbBA buffer, Buffer_close])"

text \<open>
  The declaration in \<^verbatim>\<open>firebase.h\<close> gives \<^verbatim>\<open>verb\<close> the default \<^verbatim>\<open>"PATCH"\<close> and
  \<^verbatim>\<open>queryString\<close> the default \<^verbatim>\<open>""\<close>: a call that leaves an argument out (\<open>None\<close>).
\<close>

definition setValue_call ::
  "Firebase \<Rightarrow> QJsonDocument \<Rightarrow> QString option \<Rightarrow> QString option \<Rightarrow> effect list" where
  "setValue_call fb jsonDoc verb queryString =
     setValue fb jsonDoc
       (case verb of None \<Rightarrow> QS ''PATCH'' | Some v \<Rightarrow> v)
       (case queryString of None \<Rightarrow> QS '''' | Some q \<Rightarrow> q)"

text \<open>\<^verbatim>\<open>Firebase::getValue\<close>, and the function it connects to the reply's end.\<close>

definition getValue :: "Firebase \<Rightarrow> QString \<Rightarrow> effect list" where
  "getValue fb queryString =
     (let request = QNetworkRequest_new (QUrl (buildPath fb queryString))
      in [Manager_get request, Connect ReplyFinished On_getValueFinished])"

definition getValueFinished :: "effect list" where
  "getValueFinished = [Debug NoGetValueReplyImplementation]"

text \<open>\<^verbatim>\<open>Firebase::open\<close>.\<close>

definition Firebase_open :: "QUrl \<Rightarrow> effect list" where
  "Firebase_open u =
     (let request = QNetworkRequest_new u;
          request = setRawHeader request ''Accept'' ''text/event-stream''
      in [Manager_get request, Connect ReadyRead On_eventReadyRead,
          Connect ReplyFinished On_eventFinished])"

text \<open>\<^verbatim>\<open>Firebase::listenEvents\<close>.\<close>

definition listenEvents :: "Firebase \<Rightarrow> QString \<Rightarrow> effect list" where
  "listenEvents fb queryString = Firebase_open (QUrl (buildPath fb queryString))"

text \<open>\<^verbatim>\<open>Firebase::callFunction\<close> and \<^verbatim>\<open>Firebase::functionFinished\<close>.\<close>

definition callFunction :: "Firebase \<Rightarrow> QString \<Rightarrow> effect list" where
  "callFunction fb function_name =
     (let functionRequest = QNetworkRequest_new (QUrl (mFirebaseFunctionHost fb @ function_name))
      in [Manager_get functionRequest, Connect ReplyFinished On_functionFinished])"

definition functionFinished :: "QNetworkReply \<Rightarrow> effect list \<times> QNetworkReply" where
  "functionFinished reply =
     (case QIODevice_readAll (available reply) of
        (data, rest) \<Rightarrow>
          ([Emit_functionResponseReady data, Reply_deleteLater], reply\<lparr>available := rest\<rparr>))"

subsection \<open>The event stream\<close>

text \<open>
  The slots take the object that sent the signal: \<open>None\<close> when
  \<^verbatim>\<open>qobject_cast<QNetworkReply*>(sender())\<close> is null.
\<close>

text \<open>\<^verbatim>\<open>Firebase::eventFinished\<close>.\<close>

definition eventFinished :: "QNetworkReply option \<Rightarrow> effect list" where
  "eventFinished sender =
     (case sender of
        None \<Rightarrow> []
      | Some reply \<Rightarrow>
          (let redirectUrl = QVariant_toUrl (redirectionTarget reply)
           in if \<not> QUrl_isEmpty redirectUrl then Reply_deleteLater # Firebase_open redirectUrl
              else [Reply_deleteLater]))"

text \<open>\<^verbatim>\<open>Firebase::trimValue\<close>.\<close>

definition trimValue :: "QByteArray \<Rightarrow> QByteArray" where
  "trimValue line =
     (let value = [];
          index = QByteArray_indexOf line CHR '':'';
          value = (if index > 0 then QByteArray_right line (int (length line) - index - 1)
                   else value)
      in QByteArray_trimmed value)"

text \<open>\<^verbatim>\<open>Firebase::parseKeepAlive\<close> and \<^verbatim>\<open>Firebase::parsePut\<close>.\<close>

definition parseKeepAlive :: "QByteArray \<Rightarrow> effect list" where
  "parseKeepAlive data = [Emit_eventKeepAlive]"

definition parsePut :: "QByteArray \<Rightarrow> effect list" where
  "parsePut data =
     (let data = trimValue data;
          replyDoc = QJsonDocument_fromJson data
      in if \<not> QJsonDocument_isObject replyDoc then [Warning (MalformedFirebasePutData data)]
         else [Emit_eventPut (QJsonDocument_object replyDoc)])"

text \<open>\<^verbatim>\<open>Firebase::eventReadyRead\<close>: its effects, and the reply as it leaves it.\<close>

definition eventReadyRead :: "QNetworkReply option \<Rightarrow> effect list \<times> QNetworkReply option" where
  "eventReadyRead sender =
     (case sender of
        None \<Rightarrow> ([], None)
      | Some reply \<Rightarrow>
          (case QIODevice_readLine (available reply) of
             (event, rest) \<Rightarrow>
               if event = [] then ([], Some (reply\<lparr>available := rest\<rparr>))
               else
                 (case QIODevice_readAll rest of
                    (data, rest') \<Rightarrow>
                      (if event = ''event: keep-alive\<newline>'' then parseKeepAlive data
                       else if event = ''event: put\<newline>'' then parsePut data
                       else [Warning (UnknownFirebaseEvent event)],
                       Some (reply\<lparr>available := rest'\<rparr>)))))"

section \<open>Facts about the string operations\<close>

lemma QS_length: "length (QS s) = length s"
  by (simp add: QS_def)

lemma QS_Nil [simp]: "QS [] = []"
  by (simp add: QS_def)

lemma forceStartChar_Nil [simp]: "forceStartChar [] startCh = []"
  by (simp add: forceStartChar_def)

lemma QString_right_suffix:
  "n \<le> length s \<Longrightarrow> (QString_right s n = t) = (suffix t s \<and> length t = n)"
proof
  assume n: "n \<le> length s" and r: "QString_right s n = t"
  have "suffix (drop (length s - n) s) s"
    by (rule suffix_drop)
  with n r show "suffix t s \<and> length t = n"
    by (auto simp: QString_right_def split: if_splits)
next
  assume n: "n \<le> length s" and st: "suffix t s \<and> length t = n"
  then obtain p where p: "s = p @ t"
    by (auto simp: suffix_def)
  with st show "QString_right s n = t"
    by (simp add: QString_right_def)
qed

lemma forceEndChar_nonempty:
  "string \<noteq> [] \<Longrightarrow>
   forceEndChar string endCh =
     Inr (if last string = QChar_fromLatin1 endCh then string
          else string @ [QChar_fromLatin1 endCh])"
proof -
  assume ne: "string \<noteq> []"
  have "nat (int (length string) - 1) = length string - 1"
    by simp
  with ne show ?thesis
    by (simp add: forceEndChar_def QString_at_def last_conv_nth)
qed

lemma forceEndChar_empty: "forceEndChar [] endCh = Inl IndexOutOfRange"
  by (simp add: forceEndChar_def QString_at_def)

lemma forceEndChar_ends:
  "forceEndChar string endCh = Inr h \<Longrightarrow> h \<noteq> [] \<and> last h = QChar_fromLatin1 endCh"
  by (cases "string = []") (auto simp: forceEndChar_empty forceEndChar_nonempty split: if_splits)

lemma forceStartChar_normal:
  "forceStartChar q startCh =
     (if q = [] then [] else if hd q = QChar_fromLatin1 startCh then q
      else QChar_fromLatin1 startCh # q)"
  by (cases q) (simp_all add: forceStartChar_def)

lemma ctor_mHost_has_slash:
  assumes "Firebase_ctor hostName fh dbPath = Inr (fb, effs)"
  shows "QChar_fromLatin1 CHR ''/'' \<in> set (mHost fb)"
proof -
  from assms obtain h where h: "forceEndChar (QString_trimmed hostName) CHR ''/'' = Inr h"
    and fb: "mHost fb = h @ QString_trimmed dbPath"
    by (auto simp: Firebase_ctor_def split: sum.splits)
  from forceEndChar_ends [OF h] have "h \<noteq> []" and "last h = QChar_fromLatin1 CHR ''/''"
    by simp_all
  then have "QChar_fromLatin1 CHR ''/'' \<in> set h"
    by (metis last_in_set)
  with fb show ?thesis by simp
qed

lemma dot_json_no_slash: "QChar_fromLatin1 CHR ''/'' \<notin> set (QS ''.json'')"
  by (simp add: QS_def QChar_fromLatin1_def)

lemma buildPath_general:
  assumes "mHost fb \<noteq> QS ''.json''"
  shows "buildPath fb q =
           mHost fb @ (if suffix (QS ''.json'') (mHost fb) then [] else QS ''.json'')
             @ forceStartChar q CHR ''?''"
proof -
  have five: "length (QS ''.json'') = 5"
    by (simp add: QS_length)
  have q: "(if length q > 0 then d @ forceStartChar q CHR ''?'' else d) = d @ forceStartChar q CHR ''?''"
    for d
    by (simp add: forceStartChar_def)
  show ?thesis
  proof (cases "length (mHost fb) \<le> 5")
    case True
    have "\<not> suffix (QS ''.json'') (mHost fb)"
    proof
      assume s: "suffix (QS ''.json'') (mHost fb)"
      then have "length (QS ''.json'') \<le> length (mHost fb)"
        by (rule suffix_length_le)
      with True five have "length (mHost fb) = length (QS ''.json'')"
        by simp
      with s have "mHost fb = QS ''.json''"
        by (auto simp: suffix_def)
      with assms show False by simp
    qed
    with True show ?thesis
      unfolding buildPath_def Let_def q by simp
  next
    case False
    then have "5 \<le> length (mHost fb)" by simp
    from QString_right_suffix [OF this, of "QS ''.json''"] five
    have "(QString_right (mHost fb) 5 = QS ''.json'') = suffix (QS ''.json'') (mHost fb)"
      by simp
    with False show ?thesis
      unfolding buildPath_def Let_def q by simp
  qed
qed

text \<open>
  The endpoint \<^verbatim>\<open>.json\<close> itself is the one on which \<^verbatim>\<open>buildPath\<close> appends a second
  suffix (its test is \<^verbatim>\<open>length() <= 5\<close>); the constructor never stores it, since what it
  stores holds a \<^verbatim>\<open>/\<close>.
\<close>

lemma buildPath_bare_dot_json:
  "buildPath (fb\<lparr>mHost := QS ''.json''\<rparr>) (QS '''') = QS ''.json.json''"
  by (simp add: buildPath_def QS_def)

lemma trimmed_no_space:
  "s \<noteq> [] \<Longrightarrow> \<not> QChar_isSpace (hd s) \<Longrightarrow> \<not> QChar_isSpace (last s) \<Longrightarrow> QString_trimmed s = s"
proof -
  assume s: "s \<noteq> []" and h: "\<not> QChar_isSpace (hd s)" and l: "\<not> QChar_isSpace (last s)"
  from s h have "dropWhile QChar_isSpace s = s"
    by (cases s) simp_all
  moreover from s l have "dropWhile QChar_isSpace (rev s) = rev s"
    by (cases "rev s") (simp_all add: hd_rev [symmetric])
  ultimately show ?thesis
    by (simp add: QString_trimmed_def)
qed

section \<open>Facts about the stream operations\<close>

lemma readLine_line:
  "CHR 0x0A \<notin> set l \<Longrightarrow> QIODevice_readLine (l @ CHR 0x0A # rest) = (l @ [CHR 0x0A], rest)"
  by (induction l) auto

lemma readLine_empty_iff: "(fst (QIODevice_readLine bytes) = []) = (bytes = [])"
  by (cases bytes) (auto split: prod.splits)

lemma readLine_keep_alive:
  "QIODevice_readLine (''event: keep-alive\<newline>'' @ data) = (''event: keep-alive\<newline>'', data)"
  using readLine_line [of "''event: keep-alive''" data] by simp

lemma readLine_put:
  "QIODevice_readLine (''event: put\<newline>'' @ data) = (''event: put\<newline>'', data)"
  using readLine_line [of "''event: put''" data] by simp

lemma indexOf_absent: "ch \<notin> set line \<Longrightarrow> QByteArray_indexOf line ch = -1"
  by (induction line) (auto simp: Let_def)

lemma indexOf_first:
  "ch \<notin> set pre \<Longrightarrow> QByteArray_indexOf (pre @ ch # post) ch = int (length pre)"
  by (induction pre) (auto simp: Let_def)

lemma QByteArray_trimmed_Nil [simp]: "QByteArray_trimmed [] = []"
  by (simp add: QByteArray_trimmed_def)

lemma trimValue_field:
  assumes "CHR '':'' \<notin> set name" and "name \<noteq> []"
  shows "trimValue (name @ CHR '':'' # payload) = QByteArray_trimmed payload"
proof -
  have i: "QByteArray_indexOf (name @ CHR '':'' # payload) CHR '':'' = int (length name)"
    by (rule indexOf_first [OF assms(1)])
  have "QByteArray_right (name @ CHR '':'' # payload)
          (int (length (name @ CHR '':'' # payload)) - int (length name) - 1) = payload"
    by (simp add: QByteArray_right_def)
  with i assms(2) show ?thesis
    by (simp add: trimValue_def)
qed

lemma trimValue_no_field:
  assumes "CHR '':'' \<notin> set line \<or> (\<exists>payload. line = CHR '':'' # payload)"
  shows "trimValue line = []"
  using assms by (auto simp: trimValue_def indexOf_absent)

lemma fromJson_Nil: "QJsonDocument_fromJson [] = NullDocument"
  by (simp add: QJsonDocument_fromJson_def eatBOM_def)

lemma parsePut_object:
  "QJsonDocument_fromJson (trimValue data) = ObjectDocument obj \<Longrightarrow>
   parsePut data = [Emit_eventPut obj]"
  by (simp add: parsePut_def)

lemma parsePut_malformed:
  "\<not> QJsonDocument_isObject (QJsonDocument_fromJson (trimValue data)) \<Longrightarrow>
   parsePut data = [Warning (MalformedFirebasePutData (trimValue data))]"
  by (simp add: parsePut_def)

lemma eventReadyRead_event:
  assumes "QIODevice_readLine (available reply) = (event, data)" and "event \<noteq> []"
  shows "eventReadyRead (Some reply) =
           (if event = ''event: keep-alive\<newline>'' then parseKeepAlive data
            else if event = ''event: put\<newline>'' then parsePut data
            else [Warning (UnknownFirebaseEvent event)],
            Some (reply\<lparr>available := []\<rparr>))"
  using assms by (simp add: eventReadyRead_def QIODevice_readAll_def)

section \<open>The endpoint\<close>

text \<open>
  C6, as the code has it. For every host that is not empty once trimmed, and every
  database path, the constructor succeeds with no effect on the network; the function
  host is stored as given and the token is empty; the endpoint is the trimmed host,
  followed by one \<^verbatim>\<open>/\<close> only when the trimmed host does not already end in one, followed
  by the trimmed database path. Slashes the host already ends in are kept as they are.
\<close>

theorem ctor_endpoint:
  assumes "QString_trimmed hostName \<noteq> []"
  shows "Firebase_ctor hostName firebaseFunctionHost dbPath =
           Inr (\<lparr>mFirebaseFunctionHost = firebaseFunctionHost,
                 mFirebaseToken = [],
                 mHost =
                   (if last (QString_trimmed hostName) = QChar_fromLatin1 CHR ''/''
                    then QString_trimmed hostName
                    else QString_trimmed hostName @ [QChar_fromLatin1 CHR ''/''])
                   @ QString_trimmed dbPath\<rparr>, [])"
  using assms by (simp add: Firebase_ctor_def forceEndChar_nonempty QS_def)

lemma trimmed_example_host:
  "QString_trimmed (QS ''https://x.firebaseio.com'') = QS ''https://x.firebaseio.com''"
  by (rule trimmed_no_space) (simp_all add: QS_def QChar_fromLatin1_def QChar_isSpace_def)

lemma trimmed_example_path: "QString_trimmed (QS ''users'') = QS ''users''"
  by (rule trimmed_no_space) (simp_all add: QS_def QChar_fromLatin1_def QChar_isSpace_def)

text \<open>
  The example of the specification: host \<^verbatim>\<open>https://x.firebaseio.com\<close> and path
  \<^verbatim>\<open>users\<close> give the endpoint \<^verbatim>\<open>https://x.firebaseio.com/users\<close>.
\<close>

theorem ctor_endpoint_witness:
  "QString_trimmed (QS ''https://x.firebaseio.com'') \<noteq> []
   \<and> Firebase_ctor (QS ''https://x.firebaseio.com'') (QS ''https://fn.example.com/'') (QS ''users'') =
       Inr (\<lparr>mFirebaseFunctionHost = QS ''https://fn.example.com/'',
             mFirebaseToken = [],
             mHost = QS ''https://x.firebaseio.com/users''\<rparr>, [])"
proof -
  have ne: "QString_trimmed (QS ''https://x.firebaseio.com'') \<noteq> []"
    by (simp add: trimmed_example_host) (simp add: QS_def)
  have l: "last (QS ''https://x.firebaseio.com'') \<noteq> QChar_fromLatin1 CHR ''/''"
    by (simp add: QS_def QChar_fromLatin1_def)
  have e: "QS ''https://x.firebaseio.com'' @ [QChar_fromLatin1 CHR ''/''] @ QS ''users''
             = QS ''https://x.firebaseio.com/users''"
    by (simp add: QS_def)
  from ctor_endpoint [OF ne, of "QS ''https://fn.example.com/''" "QS ''users''"] ne l e
  show ?thesis
    by (simp add: trimmed_example_host trimmed_example_path)
qed

text \<open>
  A host that ends in two slashes keeps both: the endpoint of \<^verbatim>\<open>https://x.firebaseio.com//\<close>
  and \<^verbatim>\<open>users\<close> is \<^verbatim>\<open>https://x.firebaseio.com//users\<close>, so the host is not brought
  to end in exactly one separator.
\<close>

lemma trimmed_example_host2:
  "QString_trimmed (QS ''https://x.firebaseio.com//'') = QS ''https://x.firebaseio.com//''"
  by (rule trimmed_no_space) (simp_all add: QS_def QChar_fromLatin1_def QChar_isSpace_def)

theorem ctor_keeps_trailing_slashes:
  "Firebase_ctor (QS ''https://x.firebaseio.com//'') [] (QS ''users'') =
     Inr (\<lparr>mFirebaseFunctionHost = [],
           mFirebaseToken = [],
           mHost = QS ''https://x.firebaseio.com//users''\<rparr>, [])
   \<and> QS ''https://x.firebaseio.com//users'' \<noteq> QS ''https://x.firebaseio.com/users''"
proof -
  have l: "last (QS ''https://x.firebaseio.com//'') = QChar_fromLatin1 CHR ''/''"
    by (simp add: QS_def)
  have ne: "QS ''https://x.firebaseio.com//'' \<noteq> []"
    by (simp add: QS_def)
  have e: "QS ''https://x.firebaseio.com//'' @ QS ''users'' = QS ''https://x.firebaseio.com//users''"
    by (simp add: QS_def)
  have d: "QS ''https://x.firebaseio.com//users'' \<noteq> QS ''https://x.firebaseio.com/users''"
    by (simp add: QS_def QChar_fromLatin1_def)
  from l ne e d show ?thesis
    by (simp add: Firebase_ctor_def forceEndChar_nonempty trimmed_example_host2
        trimmed_example_path)
qed

text \<open>
  C7. The documentation of the constructor allows an empty host (and the declaration makes
  it the default), but \<^verbatim>\<open>forceEndChar\<close> then reads \<^verbatim>\<open>string[-1]\<close>: the constructor fails on
  the index, where its sibling \<^verbatim>\<open>forceStartChar\<close> checks the length first.
\<close>

theorem ctor_empty_host_out_of_range:
  "Firebase_ctor [] firebaseFunctionHost dbPath = Inl IndexOutOfRange"
  by (simp add: Firebase_ctor_def QString_trimmed_def forceEndChar_empty)

text \<open>
  C2. For every endpoint the constructor stores and every query, \<^verbatim>\<open>buildPath\<close> gives the
  endpoint, then \<^verbatim>\<open>.json\<close> if and only if the endpoint does not end in it, then the query
  with a \<^verbatim>\<open>?\<close> put in front unless it is empty or starts with one. What it gives for the
  empty query ends in \<^verbatim>\<open>.json\<close>, and stored as the endpoint it is left as it is: no
  second suffix.
\<close>

theorem buildPath_json_suffix:
  assumes "Firebase_ctor hostName firebaseFunctionHost dbPath = Inr (fb, effs)"
  shows "buildPath fb queryString =
           mHost fb @ (if suffix (QS ''.json'') (mHost fb) then [] else QS ''.json'')
             @ (if queryString = [] then []
                else if hd queryString = QChar_fromLatin1 CHR ''?'' then queryString
                else QChar_fromLatin1 CHR ''?'' # queryString)
         \<and> suffix (QS ''.json'') (buildPath fb [])
         \<and> buildPath (fb\<lparr>mHost := buildPath fb []\<rparr>) queryString = buildPath fb queryString"
proof -
  from ctor_mHost_has_slash [OF assms] dot_json_no_slash
  have ne: "mHost fb \<noteq> QS ''.json''"
    by auto
  have eq: "buildPath fb q =
              mHost fb @ (if suffix (QS ''.json'') (mHost fb) then [] else QS ''.json'')
                @ forceStartChar q CHR ''?''" for q
    by (rule buildPath_general [OF ne])
  have empty: "buildPath fb [] =
                 mHost fb @ (if suffix (QS ''.json'') (mHost fb) then [] else QS ''.json'')"
    by (simp add: eq forceStartChar_def)
  have suf: "suffix (QS ''.json'') (buildPath fb [])"
    by (simp add: empty suffix_def)
  from ctor_mHost_has_slash [OF assms] dot_json_no_slash
  have ne': "mHost (fb\<lparr>mHost := buildPath fb []\<rparr>) \<noteq> QS ''.json''"
    by (auto simp: empty)
  have "buildPath (fb\<lparr>mHost := buildPath fb []\<rparr>) queryString =
          buildPath fb [] @ forceStartChar queryString CHR ''?''"
    using buildPath_general [OF ne', of queryString] suf by simp
  also have "\<dots> = buildPath fb queryString"
    by (simp add: eq empty)
  finally have idem: "buildPath (fb\<lparr>mHost := buildPath fb []\<rparr>) queryString = buildPath fb queryString" .
  from eq [of queryString] suf idem show ?thesis
    by (simp add: forceStartChar_normal)
qed

lemma trimmed_example_host3:
  "QString_trimmed (QS ''https://x.firebaseio.com/'') = QS ''https://x.firebaseio.com/''"
  by (rule trimmed_no_space) (simp_all add: QS_def QChar_fromLatin1_def QChar_isSpace_def)

lemma trimmed_example_path3: "QString_trimmed (QS ''users.json'') = QS ''users.json''"
  by (rule trimmed_no_space) (simp_all add: QS_def QChar_fromLatin1_def QChar_isSpace_def)

lemma ctor_example3:
  "Firebase_ctor (QS ''https://x.firebaseio.com/'') [] (QS ''users.json'') =
     Inr (\<lparr>mFirebaseFunctionHost = [], mFirebaseToken = [],
           mHost = QS ''https://x.firebaseio.com/users.json''\<rparr>, [])"
proof -
  have l: "last (QS ''https://x.firebaseio.com/'') = QChar_fromLatin1 CHR ''/''"
    by (simp add: QS_def)
  have ne: "QS ''https://x.firebaseio.com/'' \<noteq> []"
    by (simp add: QS_def)
  have e: "QS ''https://x.firebaseio.com/'' @ QS ''users.json'' = QS ''https://x.firebaseio.com/users.json''"
    by (simp add: QS_def)
  from l ne e show ?thesis
    by (simp add: Firebase_ctor_def forceEndChar_nonempty trimmed_example_host3
        trimmed_example_path3)
qed

theorem buildPath_json_suffix_witness:
  "Firebase_ctor (QS ''https://x.firebaseio.com/'') [] (QS ''users.json'') =
     Inr (\<lparr>mFirebaseFunctionHost = [], mFirebaseToken = [],
           mHost = QS ''https://x.firebaseio.com/users.json''\<rparr>, [])
   \<and> buildPath \<lparr>mFirebaseFunctionHost = [], mFirebaseToken = [],
                 mHost = QS ''https://x.firebaseio.com/users.json''\<rparr> (QS ''shallow=true'') =
       QS ''https://x.firebaseio.com/users.json?shallow=true''"
proof -
  have s: "suffix (QS ''.json'') (QS ''https://x.firebaseio.com/users.json'')"
    by (simp add: suffix_def QS_def)
  have q: "QS ''shallow=true'' \<noteq> [] \<and> hd (QS ''shallow=true'') \<noteq> QChar_fromLatin1 CHR ''?''"
    by (simp add: QS_def QChar_fromLatin1_def)
  have e: "QS ''https://x.firebaseio.com/users.json'' @ QChar_fromLatin1 CHR ''?'' # QS ''shallow=true''
             = QS ''https://x.firebaseio.com/users.json?shallow=true''"
    by (simp add: QS_def)
  from buildPath_json_suffix [OF ctor_example3, of "QS ''shallow=true''"] s q e
  show ?thesis
    by (simp add: ctor_example3)
qed

section \<open>The event stream\<close>

text \<open>
  C3. A chunk that starts with the line \<^verbatim>\<open>event: keep-alive\<close> gives exactly the
  notification \<^verbatim>\<open>eventKeepAlive\<close>, whatever follows the line, and leaves nothing
  to read; so does the chunk that is this line and one more line feed.
\<close>

theorem keep_alive_event:
  "eventReadyRead (Some (reply\<lparr>available := ''event: keep-alive\<newline>'' @ data\<rparr>)) =
     ([Emit_eventKeepAlive], Some (reply\<lparr>available := []\<rparr>))
   \<and> eventReadyRead (Some (reply\<lparr>available := ''event: keep-alive\<newline>\<newline>''\<rparr>)) =
     ([Emit_eventKeepAlive], Some (reply\<lparr>available := []\<rparr>))"
proof -
  have "eventReadyRead (Some (reply\<lparr>available := ''event: keep-alive\<newline>'' @ d\<rparr>)) =
          ([Emit_eventKeepAlive], Some (reply\<lparr>available := []\<rparr>))" for d
    using eventReadyRead_event
      [of "reply\<lparr>available := ''event: keep-alive\<newline>'' @ d\<rparr>" "''event: keep-alive\<newline>''" d]
    by (simp add: readLine_keep_alive parseKeepAlive_def)
  from this [of data] this [of "''\<newline>''"] show ?thesis
    by simp
qed

text \<open>
  C10. When the line read is empty the handler has no effect and leaves the reply as it
  was: nothing further is read.
\<close>

theorem empty_line_returns:
  assumes "fst (QIODevice_readLine (available reply)) = []"
  shows "eventReadyRead (Some reply) = ([], Some reply)"
proof -
  from assms have "available reply = []"
    by (simp add: readLine_empty_iff)
  then show ?thesis
    by (simp add: eventReadyRead_def)
qed

theorem empty_line_returns_witness:
  "fst (QIODevice_readLine (available \<lparr>available = [], redirectionTarget = None\<rparr>)) = []
   \<and> eventReadyRead (Some \<lparr>available = [], redirectionTarget = None\<rparr>) =
       ([], Some \<lparr>available = [], redirectionTarget = None\<rparr>)"
proof -
  have h: "fst (QIODevice_readLine (available \<lparr>available = [], redirectionTarget = None\<rparr>)) = []"
    by simp
  from h empty_line_returns [OF h] show ?thesis
    by simp
qed

text \<open>
  C9. A \<^verbatim>\<open>put\<close> event whose data holds no colon, or whose data starts with its first
  colon, has the empty payload; the empty text is not a JSON object; the event is logged
  as malformed and no notification is emitted.
\<close>

theorem put_without_field_name_dropped:
  assumes "CHR '':'' \<notin> set data \<or> (\<exists>payload. data = CHR '':'' # payload)"
  shows "trimValue data = []
         \<and> \<not> QJsonDocument_isObject (QJsonDocument_fromJson [])
         \<and> eventReadyRead (Some (reply\<lparr>available := ''event: put\<newline>'' @ data\<rparr>)) =
             ([Warning (MalformedFirebasePutData [])], Some (reply\<lparr>available := []\<rparr>))"
proof -
  have t: "trimValue data = []"
    by (rule trimValue_no_field [OF assms])
  have n: "\<not> QJsonDocument_isObject (QJsonDocument_fromJson [])"
    by (simp add: fromJson_Nil)
  from t n have "parsePut data = [Warning (MalformedFirebasePutData [])]"
    using parsePut_malformed [of data] by simp
  with t n show ?thesis
    using eventReadyRead_event
      [of "reply\<lparr>available := ''event: put\<newline>'' @ data\<rparr>" "''event: put\<newline>''" data]
    by (simp add: readLine_put)
qed

theorem put_without_field_name_dropped_witness:
  \<open>eventReadyRead (Some \<lparr>available = ''event: put\<newline>data {}'', redirectionTarget = None\<rparr>) =
     ([Warning (MalformedFirebasePutData [])], Some \<lparr>available = [], redirectionTarget = None\<rparr>)
   \<and> eventReadyRead (Some \<lparr>available = ''event: put\<newline>:{"a":1}'', redirectionTarget = None\<rparr>) =
     ([Warning (MalformedFirebasePutData [])], Some \<lparr>available = [], redirectionTarget = None\<rparr>)\<close>
proof -
  have h1: "CHR '':'' \<notin> set ''data {}'' \<or> (\<exists>payload. ''data {}'' = CHR '':'' # payload)"
    by simp
  have h2: \<open>CHR '':'' \<notin> set '':{"a":1}'' \<or> (\<exists>payload. '':{"a":1}'' = CHR '':'' # payload)\<close>
    by simp
  from put_without_field_name_dropped [OF h1, of "\<lparr>available = [], redirectionTarget = None\<rparr>"]
    put_without_field_name_dropped [OF h2, of "\<lparr>available = [], redirectionTarget = None\<rparr>"]
  show ?thesis
    by simp
qed

text \<open>
  C4. An event whose header line is neither of the two known ones, or a \<^verbatim>\<open>put\<close> event
  whose payload is not a JSON object, has one effect, a line of the log; no notification
  is emitted, and the handler returns as for any other event, with nothing left to read.
\<close>

theorem malformed_event_dropped:
  assumes "QIODevice_readLine (available reply) = (event, data)" and "event \<noteq> []"
    and "(event \<noteq> ''event: keep-alive\<newline>'' \<and> event \<noteq> ''event: put\<newline>'')
         \<or> (event = ''event: put\<newline>''
             \<and> \<not> QJsonDocument_isObject (QJsonDocument_fromJson (trimValue data)))"
  shows "eventReadyRead (Some reply) =
           ([Warning (if event = ''event: put\<newline>'' then MalformedFirebasePutData (trimValue data)
                      else UnknownFirebaseEvent event)],
            Some (reply\<lparr>available := []\<rparr>))
         \<and> filter isNotification (fst (eventReadyRead (Some reply))) = []"
proof -
  from assms(3) have
    "(if event = ''event: keep-alive\<newline>'' then parseKeepAlive data
      else if event = ''event: put\<newline>'' then parsePut data
      else [Warning (UnknownFirebaseEvent event)]) =
     [Warning (if event = ''event: put\<newline>'' then MalformedFirebasePutData (trimValue data)
               else UnknownFirebaseEvent event)]"
    by (auto simp: parsePut_malformed)
  with eventReadyRead_event [OF assms(1,2)] show ?thesis
    by simp
qed

lemma trimmed_not_json: "QByteArray_trimmed '' not-json'' = ''not-json''"
  by (simp add: QByteArray_trimmed_def ascii_isspace_def)

lemma fromJson_not_json: "QJsonDocument_fromJson ''not-json'' = NullDocument"
  by (simp add: QJsonDocument_fromJson_def eatBOM_def isJsonSpace_def)

lemma trimmed_array: "QByteArray_trimmed '' [1]'' = ''[1]''"
  by (simp add: QByteArray_trimmed_def ascii_isspace_def)

lemma fromJson_array: "QJsonDocument_fromJson ''[1]'' = ArrayDocument [JDouble ''1'']"
proof -
  have tokens: "nextTokens ''[1]'' = Some [BeginArray, Scalar (JDouble ''1''), EndArray]"
    by (simp add: isJsonSpace_def scanNumber_def validNumber_def scanSign_def scanInt_def
        scanDigits_def scanFrac_def scanExp_def isDigit_def byte_def)
  have parse: "parseTokens ([], ExpectDocument) [BeginArray, Scalar (JDouble ''1''), EndArray] =
      Some (JArray [JDouble ''1''])"
    by (simp add: nestingLimit_def)
  have bom: "eatBOM ''[1]'' = ''[1]''"
    by (simp add: eatBOM_def)
  show ?thesis
    by (simp only: QJsonDocument_fromJson_def bom tokens parse option.case QJsonValue.case)
qed

text \<open>
  The two examples of the specification, the header \<^verbatim>\<open>event: mystery\<close> with some data
  and the header \<^verbatim>\<open>event: put\<close> with the data \<^verbatim>\<open>data: not-json\<close>, and a \<^verbatim>\<open>put\<close>
  event whose payload is JSON but an array.
\<close>

theorem malformed_event_dropped_witness:
  "eventReadyRead (Some \<lparr>available = ''event: mystery\<newline>data: 1'', redirectionTarget = None\<rparr>) =
     ([Warning (UnknownFirebaseEvent ''event: mystery\<newline>'')],
      Some \<lparr>available = [], redirectionTarget = None\<rparr>)
   \<and> eventReadyRead (Some \<lparr>available = ''event: put\<newline>data: not-json'', redirectionTarget = None\<rparr>) =
     ([Warning (MalformedFirebasePutData ''not-json'')],
      Some \<lparr>available = [], redirectionTarget = None\<rparr>)
   \<and> eventReadyRead (Some \<lparr>available = ''event: put\<newline>data: [1]'', redirectionTarget = None\<rparr>) =
     ([Warning (MalformedFirebasePutData ''[1]'')],
      Some \<lparr>available = [], redirectionTarget = None\<rparr>)"
proof -
  let ?r3 = "\<lparr>available = ''event: put\<newline>data: [1]'', redirectionTarget = None\<rparr>"
  have l3: "QIODevice_readLine (available ?r3) = (''event: put\<newline>'', ''data: [1]'')"
    using readLine_put [of "''data: [1]''"] by simp
  have t3: "trimValue ''data: [1]'' = ''[1]''"
    using trimValue_field [of "''data''" "'' [1]''"] by (simp add: trimmed_array)
  have c3: "(''event: put\<newline>'' \<noteq> ''event: keep-alive\<newline>''
             \<and> ''event: put\<newline>'' \<noteq> ''event: put\<newline>'')
            \<or> (''event: put\<newline>'' = ''event: put\<newline>''
                \<and> \<not> QJsonDocument_isObject (QJsonDocument_fromJson (trimValue ''data: [1]'')))"
    by (simp add: t3 fromJson_array)
  let ?r1 = "\<lparr>available = ''event: mystery\<newline>data: 1'', redirectionTarget = None\<rparr>"
  let ?r2 = "\<lparr>available = ''event: put\<newline>data: not-json'', redirectionTarget = None\<rparr>"
  have l1: "QIODevice_readLine (available ?r1) = (''event: mystery\<newline>'', ''data: 1'')"
    using readLine_line [of "''event: mystery''" "''data: 1''"] by simp
  have e1: "''event: mystery\<newline>'' \<noteq> []"
    by simp
  have c1: "(''event: mystery\<newline>'' \<noteq> ''event: keep-alive\<newline>''
             \<and> ''event: mystery\<newline>'' \<noteq> ''event: put\<newline>'')
            \<or> (''event: mystery\<newline>'' = ''event: put\<newline>''
                \<and> \<not> QJsonDocument_isObject (QJsonDocument_fromJson (trimValue ''data: 1'')))"
    by simp
  have l2: "QIODevice_readLine (available ?r2) = (''event: put\<newline>'', ''data: not-json'')"
    using readLine_put [of "''data: not-json''"] by simp
  have e2: "''event: put\<newline>'' \<noteq> []"
    by simp
  have t2: "trimValue ''data: not-json'' = ''not-json''"
    using trimValue_field [of "''data''" "'' not-json''"] by (simp add: trimmed_not_json)
  have c2: "(''event: put\<newline>'' \<noteq> ''event: keep-alive\<newline>''
             \<and> ''event: put\<newline>'' \<noteq> ''event: put\<newline>'')
            \<or> (''event: put\<newline>'' = ''event: put\<newline>''
                \<and> \<not> QJsonDocument_isObject (QJsonDocument_fromJson (trimValue ''data: not-json'')))"
    by (simp add: t2 fromJson_not_json)
  from malformed_event_dropped [OF l1 e1 c1] malformed_event_dropped [OF l2 e2 c2]
    malformed_event_dropped [OF l3 e2 c3] t2 t3
  show ?thesis
    by simp
qed

text \<open>
  C1, as the code has it. In a \<^verbatim>\<open>put\<close> event whose data is a field name that is not
  empty and holds no colon, a colon, and a payload, the payload is what follows the first
  colon; when the payload with the whitespace around it removed parses as a JSON object,
  the handler emits exactly \<^verbatim>\<open>eventPut\<close> with that object and leaves nothing to read.
\<close>

theorem put_event_emits_object:
  assumes "CHR '':'' \<notin> set name" and "name \<noteq> []"
    and "QJsonDocument_fromJson (QByteArray_trimmed payload) = ObjectDocument obj"
  shows "trimValue (name @ CHR '':'' # payload) = QByteArray_trimmed payload
         \<and> eventReadyRead
             (Some (reply\<lparr>available := ''event: put\<newline>'' @ name @ CHR '':'' # payload\<rparr>)) =
             ([Emit_eventPut obj], Some (reply\<lparr>available := []\<rparr>))"
proof -
  let ?data = "name @ CHR '':'' # payload"
  have t: "trimValue ?data = QByteArray_trimmed payload"
    by (rule trimValue_field [OF assms(1,2)])
  with assms(3) have "parsePut ?data = [Emit_eventPut obj]"
    by (simp add: parsePut_object)
  with t show ?thesis
    using eventReadyRead_event
      [of "reply\<lparr>available := ''event: put\<newline>'' @ ?data\<rparr>" "''event: put\<newline>''" ?data]
    by (simp add: readLine_put)
qed

lemma tokens_example:
  \<open>nextTokens ''{"path":"/","data":{"a":1}}'' =
     Some [BeginObject, Quoted (QS ''path''), NameSeparator, Quoted (QS ''/''), ValueSeparator,
           Quoted (QS ''data''), NameSeparator, BeginObject, Quoted (QS ''a''), NameSeparator,
           Scalar (JDouble ''1''), EndObject, EndObject]\<close>
  by (simp add: isJsonSpace_def QS_def QChar_fromLatin1_def scanNumber_def validNumber_def
      scanSign_def scanInt_def scanDigits_def scanFrac_def scanExp_def isDigit_def byte_def
      ucs4_units_def)

lemma parse_example:
  \<open>parseTokens ([], ExpectDocument)
     [BeginObject, Quoted (QS ''path''), NameSeparator, Quoted (QS ''/''), ValueSeparator,
      Quoted (QS ''data''), NameSeparator, BeginObject, Quoted (QS ''a''), NameSeparator,
      Scalar (JDouble ''1''), EndObject, EndObject] =
   Some (JObject [(QS ''data'', JObject [(QS ''a'', JDouble ''1'')]),
                  (QS ''path'', JString (QS ''/''))])\<close>
  by (simp add: nestingLimit_def QS_def QChar_fromLatin1_def)

lemma fromJson_example:
  \<open>QJsonDocument_fromJson ''{"path":"/","data":{"a":1}}'' =
     ObjectDocument [(QS ''data'', JObject [(QS ''a'', JDouble ''1'')]),
                     (QS ''path'', JString (QS ''/''))]\<close>
proof -
  have bom: \<open>eatBOM ''{"path":"/","data":{"a":1}}'' = ''{"path":"/","data":{"a":1}}''\<close>
    by (simp add: eatBOM_def)
  show ?thesis
    by (simp only: QJsonDocument_fromJson_def bom tokens_example parse_example
        option.case QJsonValue.case)
qed

lemma trimmed_example:
  \<open>QByteArray_trimmed '' {"path":"/","data":{"a":1}}'' = ''{"path":"/","data":{"a":1}}''\<close>
  by (simp add: QByteArray_trimmed_def ascii_isspace_def)

text \<open>
  The example of the specification: the data \<^verbatim>\<open>data: {"path":"/","data":{"a":1}}\<close>
  gives one \<^verbatim>\<open>eventPut\<close> with that object (an object is kept in the order of its keys).
\<close>

theorem put_event_emits_object_witness:
  \<open>QJsonDocument_fromJson (QByteArray_trimmed '' {"path":"/","data":{"a":1}}'') =
     ObjectDocument [(QS ''data'', JObject [(QS ''a'', JDouble ''1'')]),
                     (QS ''path'', JString (QS ''/''))]
   \<and> eventReadyRead
       (Some \<lparr>available = ''event: put\<newline>data: {"path":"/","data":{"a":1}}'',
              redirectionTarget = None\<rparr>) =
       ([Emit_eventPut [(QS ''data'', JObject [(QS ''a'', JDouble ''1'')]),
                        (QS ''path'', JString (QS ''/''))]],
        Some \<lparr>available = [], redirectionTarget = None\<rparr>)\<close>
proof -
  have h1: "CHR '':'' \<notin> set ''data''"
    by simp
  have h2: "''data'' \<noteq> []"
    by simp
  have h3: \<open>QJsonDocument_fromJson (QByteArray_trimmed '' {"path":"/","data":{"a":1}}'') =
              ObjectDocument [(QS ''data'', JObject [(QS ''a'', JDouble ''1'')]),
                              (QS ''path'', JString (QS ''/''))]\<close>
    by (simp only: trimmed_example fromJson_example)
  from put_event_emits_object [OF h1 h2 h3, of "\<lparr>available = [], redirectionTarget = None\<rparr>"] h3
  show ?thesis
    by simp
qed

text \<open>
  The data \<^verbatim>\<open>:{"a":1}\<close> holds its first colon at index 0. What follows that colon is
  a JSON object, and yet the handler emits no \<^verbatim>\<open>eventPut\<close>: it logs the event as
  malformed, with the empty payload.
\<close>

lemma fromJson_example2:
  \<open>QJsonDocument_fromJson (QByteArray_trimmed ''{"a":1}'') =
     ObjectDocument [(QS ''a'', JDouble ''1'')]\<close>
proof -
  have t: \<open>QByteArray_trimmed ''{"a":1}'' = ''{"a":1}''\<close>
    by (simp add: QByteArray_trimmed_def ascii_isspace_def)
  have bom: \<open>eatBOM ''{"a":1}'' = ''{"a":1}''\<close>
    by (simp add: eatBOM_def)
  have tokens: \<open>nextTokens ''{"a":1}'' =
      Some [BeginObject, Quoted (QS ''a''), NameSeparator, Scalar (JDouble ''1''), EndObject]\<close>
    by (simp add: isJsonSpace_def QS_def QChar_fromLatin1_def scanNumber_def validNumber_def
        scanSign_def scanInt_def scanDigits_def scanFrac_def scanExp_def isDigit_def byte_def
        ucs4_units_def)
  have parse: \<open>parseTokens ([], ExpectDocument)
      [BeginObject, Quoted (QS ''a''), NameSeparator, Scalar (JDouble ''1''), EndObject] =
      Some (JObject [(QS ''a'', JDouble ''1'')])\<close>
    by (simp add: nestingLimit_def)
  show ?thesis
    by (simp only: t QJsonDocument_fromJson_def bom tokens parse option.case QJsonValue.case)
qed

theorem put_event_leading_colon_dropped:
  \<open>QJsonDocument_fromJson (QByteArray_trimmed ''{"a":1}'') = ObjectDocument [(QS ''a'', JDouble ''1'')]
   \<and> eventReadyRead
       (Some \<lparr>available = ''event: put\<newline>:{"a":1}'', redirectionTarget = None\<rparr>) =
       ([Warning (MalformedFirebasePutData [])],
        Some \<lparr>available = [], redirectionTarget = None\<rparr>)\<close>
proof -
  have t: \<open>trimValue '':{"a":1}'' = []\<close>
    by (rule trimValue_no_field) simp
  have l: \<open>QIODevice_readLine (available \<lparr>available = ''event: put\<newline>:{"a":1}'',
        redirectionTarget = None\<rparr>) = (''event: put\<newline>'', '':{"a":1}'')\<close>
    using readLine_put [of \<open>'':{"a":1}''\<close>] by simp
  have "parsePut '':{\"a\":1}'' = [Warning (MalformedFirebasePutData [])]"
    using parsePut_malformed [of \<open>'':{"a":1}''\<close>] by (simp add: t fromJson_Nil)
  with eventReadyRead_event [OF l] fromJson_example2 show ?thesis
    by simp
qed

section \<open>The end of a stream\<close>

text \<open>
  C5. When the reply that has finished carries a redirection target that is not empty,
  the handler releases the reply and opens a stream on the target: one GET with the
  header \<^verbatim>\<open>Accept: text/event-stream\<close>, connected to the two handlers of a stream.
  When the reply carries no target, or an empty one, the handler only releases the reply.
  In no case does it emit a notification.
\<close>

theorem eventFinished_redirect:
  "(redirectionTarget reply = Some target \<and> \<not> QUrl_isEmpty target \<longrightarrow>
      eventFinished (Some reply) =
        [Reply_deleteLater,
         Manager_get \<lparr>url = target, knownHeaders = [],
                      rawHeaders = [(''Accept'', ''text/event-stream'')]\<rparr>,
         Connect ReadyRead On_eventReadyRead,
         Connect ReplyFinished On_eventFinished])
   \<and> (redirectionTarget reply = None \<or> redirectionTarget reply = Some (QUrl []) \<longrightarrow>
      eventFinished (Some reply) = [Reply_deleteLater]
      \<and> filter isRequest (eventFinished (Some reply)) = [])
   \<and> filter isNotification (eventFinished sender) = []"
  by (cases sender)
    (auto simp: eventFinished_def QVariant_toUrl_def Firebase_open_def QNetworkRequest_new_def
      setRawHeader_def Let_def)

theorem eventFinished_redirect_witness:
  "eventFinished
     (Some \<lparr>available = [], redirectionTarget = Some (QUrl (QS ''https://y.firebaseio.com/.json''))\<rparr>) =
     [Reply_deleteLater,
      Manager_get \<lparr>url = QUrl (QS ''https://y.firebaseio.com/.json''), knownHeaders = [],
                   rawHeaders = [(''Accept'', ''text/event-stream'')]\<rparr>,
      Connect ReadyRead On_eventReadyRead,
      Connect ReplyFinished On_eventFinished]
   \<and> eventFinished (Some \<lparr>available = [], redirectionTarget = None\<rparr>) = [Reply_deleteLater]"
proof -
  have n: "\<not> QUrl_isEmpty (QUrl (QS ''https://y.firebaseio.com/.json''))"
    by (simp add: QS_def)
  from n
    eventFinished_redirect
      [of "\<lparr>available = [], redirectionTarget = Some (QUrl (QS ''https://y.firebaseio.com/.json''))\<rparr>"
          "QUrl (QS ''https://y.firebaseio.com/.json'')" None]
    eventFinished_redirect [of "\<lparr>available = [], redirectionTarget = None\<rparr>" "QUrl []" None]
  show ?thesis
    by simp
qed

section \<open>Writing\<close>

text \<open>
  C8. For every document, verb and query, \<^verbatim>\<open>setValue\<close> hands the network manager one
  request: to the URL \<^verbatim>\<open>buildPath\<close> gives for the query, with the content type
  \<^verbatim>\<open>application/x-www-form-urlencoded\<close> and no other header, with the verb in UTF-8, and
  with a buffer that is open, at its start, and holds the compact text of the document;
  then it closes the buffer. A call that leaves the verb out sends \<^verbatim>\<open>PATCH\<close>.
\<close>

theorem setValue_request:
  "setValue fb jsonDoc verb queryString =
     [Manager_sendCustomRequest
        \<lparr>url = QUrl (buildPath fb queryString),
         knownHeaders = [(ContentTypeHeader, ''application/x-www-form-urlencoded'')],
         rawHeaders = []\<rparr>
        (QString_toUtf8 verb)
        \<lparr>buffer_data = QJsonDocument_toJson_Compact jsonDoc, buffer_pos = 0,
         buffer_isOpen = True\<rparr>,
      Buffer_close]
   \<and> setValue_call fb jsonDoc None (Some queryString) = setValue fb jsonDoc (QS ''PATCH'') queryString
   \<and> setValue_call fb jsonDoc None None = setValue fb jsonDoc (QS ''PATCH'') []
   \<and> QString_toUtf8 (QS ''PATCH'') = ''PATCH''"
proof -
  have "QString_toUtf8 (QS ''PATCH'') = ''PATCH''"
    by (simp add: QS_def QChar_fromLatin1_def isHighSurrogate_def isLowSurrogate_def
        utf8_bytes_def char_of_def bit_Suc_0_iff)
  then show ?thesis
    by (simp add: setValue_def setValue_call_def QNetworkRequest_new_def setHeader_def
        QBuffer_new_def QBuffer_open_def QBuffer_write_def QBuffer_seek_def)
qed

text \<open>A document and its compact text.\<close>

lemma toJson_example:
  \<open>QJsonDocument_toJson_Compact
     (ObjectDocument [(QS ''data'', JObject [(QS ''a'', JDouble ''1'')]),
                      (QS ''path'', JString (QS ''/''))]) =
   ''{"data":{"a":1},"path":"/"}''\<close>
  by (simp add: QJsonDocument_toJson_Compact_def commaSeparated_def QS_def QChar_fromLatin1_def
      escapedAscii_def char_of_def bit_Suc_0_iff)

end
